theory Spec2Isabelle
  imports Complex_Main "HOL-Library.Word"
begin

section \<open>JavaScript values\<close>

text \<open>
  The admin panel scripts run in a browser. A JavaScript string is a sequence of
  16-bit code units; the literals of the scripts that are plain ASCII are written with
  \<open>str\<close>, the Turkish letters of the user interface texts by their code unit.
\<close>

type_synonym code_unit = "16 word"
type_synonym jsstring = "code_unit list"

definition str :: "string \<Rightarrow> jsstring" where
  "str s = map (\<lambda>c. of_nat (of_char c)) s"

text \<open>
  The values that reach the scripts are the scalars of a parsed JSON reply and what
  the scripts compute from them: \<open>undefined\<close> (the value of an absent property),
  \<open>null\<close>, booleans, numbers, \<open>NaN\<close> and strings. Numbers are exact rationals:
  the rounding of IEEE doubles is not part of the model. \<open>JHost n\<close> is the built-in
  function or object that every object literal inherits under the property name \<open>n\<close>
  from \<open>Object.prototype\<close>.
\<close>

datatype jsval =
    JUndefined
  | JNull
  | JBool bool
  | JNum rat
  | JNaN
  | JStr jsstring
  | JHost jsstring

datatype error = TypeError

text \<open>What the scripts take from the browser and do not define themselves.\<close>

record host =
  number_to_string :: "rat \<Rightarrow> jsstring"
    \<comment> \<open>\<open>Number.prototype.toString\<close> where it is not a plain decimal integer\<close>
  host_to_string :: "jsstring \<Rightarrow> jsstring"
    \<comment> \<open>the text a built-in function or object converts to\<close>
  string_to_number :: "jsstring \<Rightarrow> jsval"
    \<comment> \<open>\<open>ToNumber\<close> on a string: \<open>JNum\<close> or \<open>JNaN\<close>\<close>
  parseFloat :: "jsstring \<Rightarrow> jsval"
  date_to_locale_string :: "jsval \<Rightarrow> jsstring"
    \<comment> \<open>\<open>new Date(ms).toLocaleString('tr-TR')\<close>\<close>

fun truthy :: "jsval \<Rightarrow> bool" where
  "truthy JUndefined = False"
| "truthy JNull = False"
| "truthy (JBool b) = b"
| "truthy (JNum r) = (r \<noteq> 0)"
| "truthy JNaN = False"
| "truthy (JStr s) = (s \<noteq> [])"
| "truthy (JHost n) = True"

text \<open>\<open>a || b\<close>\<close>

definition js_or :: "jsval \<Rightarrow> jsval \<Rightarrow> jsval" where
  "js_or a b = (if truthy a then a else b)"

text \<open>\<open>a === b\<close>: no conversion, and \<open>NaN\<close> equals nothing.\<close>

fun strict_eq :: "jsval \<Rightarrow> jsval \<Rightarrow> bool" where
  "strict_eq JNaN b = False"
| "strict_eq a JNaN = False"
| "strict_eq a b = (a = b)"

fun digits :: "nat \<Rightarrow> jsstring" where
  "digits n = (if n < 10 then [of_nat (48 + n)] else digits (n div 10) @ [of_nat (48 + n mod 10)])"

declare digits.simps [simp del]

definition int_to_string :: "int \<Rightarrow> jsstring" where
  "int_to_string i = (if i < 0 then str ''-'' @ digits (nat (- i)) else digits (nat i))"

text \<open>
  \<open>ToString\<close>. An integer below \<open>10^21\<close> in magnitude prints as its decimal digits;
  every other number prints as the browser's \<open>Number.prototype.toString\<close> has it.
\<close>

fun to_string :: "host \<Rightarrow> jsval \<Rightarrow> jsstring" where
  "to_string h JUndefined = str ''undefined''"
| "to_string h JNull = str ''null''"
| "to_string h (JBool b) = (if b then str ''true'' else str ''false'')"
| "to_string h (JNum r) =
     (if of_int \<lfloor>r\<rfloor> = r \<and> \<bar>r\<bar> < 10 ^ 21 then int_to_string \<lfloor>r\<rfloor> else number_to_string h r)"
| "to_string h JNaN = str ''NaN''"
| "to_string h (JStr s) = s"
| "to_string h (JHost n) = host_to_string h n"




text \<open>
  \<open>WhiteSpace\<close> and \<open>LineTerminator\<close> of the language: what \<open>trim\<close> and
  \<open>parseInt\<close> skip.
\<close>

definition is_white_space :: "code_unit \<Rightarrow> bool" where
  "is_white_space c =
     (c = 0x9 \<or> c = 0xA \<or> c = 0xB \<or> c = 0xC \<or> c = 0xD \<or> c = 0x20 \<or> c = 0xA0
      \<or> c = 0x1680 \<or> (0x2000 \<le> c \<and> c \<le> 0x200A) \<or> c = 0x2028 \<or> c = 0x2029
      \<or> c = 0x202F \<or> c = 0x205F \<or> c = 0x3000 \<or> c = 0xFEFF)"




text \<open>
  \<open>parseInt(s)\<close> with no radix: leading white space and one sign are skipped, a
  \<open>0x\<close> prefix selects radix 16, the longest run of digits is read and the rest
  ignored; no digit at all gives \<open>NaN\<close>. The integer read is exact here (the language
  rounds one beyond \<open>2^53\<close> to a double).
\<close>

definition digit_value :: "nat \<Rightarrow> code_unit \<Rightarrow> nat option" where
  "digit_value radix c =
     (let d = (if 0x30 \<le> c \<and> c \<le> 0x39 then Some (unat c - 48)
               else if 0x61 \<le> c \<and> c \<le> 0x7A then Some (unat c - 87)
               else if 0x41 \<le> c \<and> c \<le> 0x5A then Some (unat c - 55)
               else None)
      in case d of None \<Rightarrow> None | Some v \<Rightarrow> if v < radix then Some v else None)"

fun parse_digits :: "nat \<Rightarrow> jsstring \<Rightarrow> nat option \<Rightarrow> nat option" where
  "parse_digits radix [] acc = acc"
| "parse_digits radix (c # cs) acc =
     (case digit_value radix c of
        None \<Rightarrow> acc
      | Some d \<Rightarrow> parse_digits radix cs (Some (radix * (case acc of None \<Rightarrow> 0 | Some a \<Rightarrow> a) + d)))"

definition parseInt_string :: "jsstring \<Rightarrow> jsval" where
  "parseInt_string s =
     (let s0 = dropWhile is_white_space s;
          sign = (if take 1 s0 = str ''-'' then - 1 else 1);
          s1 = (if take 1 s0 = str ''-'' \<or> take 1 s0 = str ''+'' then drop 1 s0 else s0);
          hex = (take 2 s1 = str ''0x'' \<or> take 2 s1 = str ''0X'');
          radix = (if hex then 16 else 10);
          s2 = (if hex then drop 2 s1 else s1)
      in case parse_digits radix s2 None of
           None \<Rightarrow> JNaN
         | Some n \<Rightarrow> JNum (sign * of_nat n))"

definition parseInt :: "host \<Rightarrow> jsval \<Rightarrow> jsval" where
  "parseInt h v = parseInt_string (to_string h v)"


subsection \<open>Objects of a JSON reply\<close>

text \<open>
  An object parsed from JSON maps property names to values; reading a property it does
  not have gives \<open>undefined\<close>.
\<close>

type_synonym jsobj = "jsstring \<rightharpoonup> jsval"

definition property :: "jsobj \<Rightarrow> string \<Rightarrow> jsval" where
  "property ob k = (case ob (str k) of None \<Rightarrow> JUndefined | Some v \<Rightarrow> v)"

definition obj :: "(string \<times> jsval) list \<Rightarrow> jsobj" where
  "obj kvs = map_of (map (\<lambda>(k, v). (str k, v)) kvs)"

text \<open>
  An object literal of the script is another matter: \<open>literal[k]\<close> converts \<open>k\<close> to
  a property name and, when the literal has no such property of its own, finds what
  \<open>Object.prototype\<close> has under that name.
\<close>

definition object_prototype_names :: "string list" where
  "object_prototype_names =
     [''constructor'', ''__defineGetter__'', ''__defineSetter__'', ''hasOwnProperty'',
      ''__lookupGetter__'', ''__lookupSetter__'', ''isPrototypeOf'', ''propertyIsEnumerable'',
      ''toString'', ''valueOf'', ''__proto__'', ''toLocaleString'']"

definition literal_get :: "host \<Rightarrow> (string \<times> jsstring) list \<Rightarrow> jsval \<Rightarrow> jsval" where
  "literal_get h props k =
     (let name = to_string h k in
      case map_of (map (\<lambda>(n, v). (str n, v)) props) name of
        Some v \<Rightarrow> JStr v
      | None \<Rightarrow> if name \<in> set (map str object_prototype_names) then JHost name else JUndefined)"

subsection \<open>What a handler does at once\<close>

text \<open>
  A request body is the object handed to \<open>JSON.stringify\<close>: a literal with its
  properties in order, or (\<open>JDict\<close>) an object filled key by key. A handler's effects are
  the notifications it shows and the requests it sends before it returns; what the
  \<open>then\<close> callbacks do when a reply arrives is a later step.
\<close>

datatype json = JV jsval | JObject "(string \<times> json) list" | JDict jsobj

datatype effect =
    Notification jsstring jsstring
  | Fetch string string json

fun is_Fetch :: "effect \<Rightarrow> bool" where
  "is_Fetch (Fetch url m b) = True"
| "is_Fetch (Notification msg t) = False"

definition requests :: "effect list \<Rightarrow> effect list" where
  "requests es = filter is_Fetch es"

text \<open>The requests of a handler that may throw: one that threw before \<open>fetch\<close> sent none.\<close>

definition sent :: "error + effect list \<Rightarrow> effect list" where
  "sent r = (case r of Inl e \<Rightarrow> [] | Inr es \<Rightarrow> requests es)"

section \<open>The automation panel (part\_000)\<close>

text \<open>
  \<open>automationData\<close>: the last status reply (\<open>null\<close> until one arrived), the sessions
  and the activities. The status reply carries the two statistics objects that
  \<open>updateStatsCards\<close> reads.
\<close>

record status_reply =
  automation_active :: jsval
  session_stats :: jsobj
  activity_stats :: jsobj

record automationData =
  status :: "status_reply option"
  sessions :: "jsobj list"
  activities :: "jsobj list"

definition is_active :: "jsobj \<Rightarrow> bool" where
  "is_active s = strict_eq (property s ''status'') (JStr (str ''active''))"

subsection \<open>scheduleRandomActivity\<close>

definition msg_no_active_session :: jsstring where
  "msg_no_active_session = str ''Aktif session bulunamad'' @ [0x131]"

text \<open>
  \<open>rnd\<close> is the value of \<open>Math.random()\<close>. An index outside the array reads
  \<open>undefined\<close>, whose \<open>user\<close> property cannot be read.
\<close>

definition scheduleRandomActivity :: "rat \<Rightarrow> automationData \<Rightarrow> error + effect list" where
  "scheduleRandomActivity rnd ad =
     (let availableUsers = filter is_active (sessions ad) in
      if length availableUsers = 0
      then Inr [Notification msg_no_active_session (str ''warning'')]
      else
        let i = \<lfloor>rnd * of_nat (length availableUsers)\<rfloor> in
        if 0 \<le> i \<and> i < int (length availableUsers)
        then
          let randomUser = availableUsers ! nat i in
          Inr [Fetch ''/srdr-proadmin/api/automation/schedule-random'' ''POST''
                 (JObject [(''session_user'', JV (property randomUser ''user''))])]
        else Inl TypeError)"

subsection \<open>updateSessionSelects\<close>

record select_option =
  option_value :: jsstring
  option_text :: jsstring

definition placeholder_option :: select_option where
  "placeholder_option =
     \<lparr>option_value = [],
      option_text = str ''Kullan'' @ [0x131] @ str ''c'' @ [0x131] @ str '' se'' @ [0xE7]
        @ str ''iniz...''\<rparr>"

definition session_option :: "host \<Rightarrow> jsobj \<Rightarrow> select_option" where
  "session_option h session =
     \<lparr>option_value = to_string h (property session ''user''),
      option_text = to_string h (property session ''user'') @ str '' (''
        @ to_string h (property session ''success_rate'') @ str ''% ba'' @ [0x15F] @ str ''ar''
        @ [0x131] @ str '')''\<rparr>"

text \<open>
  Every \<open>select[name="session\_user"]\<close> of the page is emptied down to the
  placeholder and filled again; the argument lists the options each of them had.
\<close>

definition updateSessionSelects ::
  "host \<Rightarrow> automationData \<Rightarrow> select_option list list \<Rightarrow> select_option list list" where
  "updateSessionSelects h ad selects =
     map (\<lambda>select. [placeholder_option] @ map (session_option h) (filter is_active (sessions ad)))
       selects"

subsection \<open>updateStatsCards\<close>

text \<open>
  The page, as far as texts go: the elements that exist, by id, each with its
  \<open>textContent\<close>.
\<close>

type_synonym page = "string \<rightharpoonup> jsstring"

text \<open>\<open>element.textContent = v\<close>: \<open>null\<close> and \<open>undefined\<close> leave no text.\<close>

definition text_content :: "host \<Rightarrow> jsval \<Rightarrow> jsstring" where
  "text_content h v = (case v of JNull \<Rightarrow> [] | JUndefined \<Rightarrow> [] | _ \<Rightarrow> to_string h v)"

definition updateElementText :: "host \<Rightarrow> string \<Rightarrow> jsval \<Rightarrow> page \<Rightarrow> page" where
  "updateElementText h elementId text pg =
     (case pg elementId of
        None \<Rightarrow> pg
      | Some element \<Rightarrow> pg(elementId \<mapsto> text_content h text))"


subsection \<open>getStatusBadge, getActivityTypeLabel\<close>

definition span_badge :: "string \<Rightarrow> jsstring \<Rightarrow> jsstring" where
  \<open>span_badge colour label =
     str ''<span class="badge '' @ str colour @ str ''">'' @ label @ str ''</span>''\<close>

definition badges :: "(string \<times> jsstring) list" where
  "badges =
     [(''pending'', span_badge ''bg-warning'' (str ''Bekleyen'')),
      (''running'', span_badge ''bg-info'' ([0xC7] @ str ''al'' @ [0x131, 0x15F] @ str ''an'')),
      (''completed'', span_badge ''bg-success'' (str ''Tamamlanan'')),
      (''failed'', span_badge ''bg-danger''
         (str ''Ba'' @ [0x15F] @ str ''ar'' @ [0x131] @ str ''s'' @ [0x131] @ str ''z'')),
      (''cancelled'', span_badge ''bg-secondary'' ([0x130] @ str ''ptal''))]"

definition unknown_badge :: jsstring where
  "unknown_badge = span_badge ''bg-light'' (str ''Bilinmiyor'')"

definition getStatusBadge :: "host \<Rightarrow> jsval \<Rightarrow> jsval" where
  "getStatusBadge h st = js_or (literal_get h badges st) (JStr unknown_badge)"



subsection \<open>updateRecentActivitiesTable\<close>








subsection \<open>submitActivity\<close>

text \<open>
  The fields of a form, by name, with the text each holds; \<open>FormData.get\<close> gives
  \<open>null\<close> for a name the form does not have.
\<close>

type_synonym form = "jsstring \<rightharpoonup> jsstring"

definition formData_get :: "form \<Rightarrow> string \<Rightarrow> jsval" where
  "formData_get formData name = (case formData (str name) of None \<Rightarrow> JNull | Some v \<Rightarrow> JStr v)"

text \<open>A field that is missing from the form or holds no text.\<close>

definition field_empty :: "form \<Rightarrow> string \<Rightarrow> bool" where
  "field_empty formData name = (case formData (str name) of None \<Rightarrow> True | Some v \<Rightarrow> v = [])"

definition msg_choose_type_and_user :: jsstring where
  "msg_choose_type_and_user =
     str ''Aktivite t'' @ [0xFC] @ str ''r'' @ [0xFC] @ str '' ve kullan'' @ [0x131] @ str ''c''
     @ [0x131] @ str '' se'' @ [0xE7] @ str ''melisiniz''"

record activityData =
  activity_type :: jsval
  session_user :: jsval
  target :: jsval
  delay_seconds :: jsval
  metadata_count :: jsval

definition activity_json :: "activityData \<Rightarrow> json" where
  "activity_json a =
     JObject [(''activity_type'', JV (activity_type a)),
              (''session_user'', JV (session_user a)),
              (''target'', JV (target a)),
              (''delay_seconds'', JV (delay_seconds a)),
              (''metadata'', JObject [(''count'', JV (metadata_count a))])]"

definition submitActivity :: "host \<Rightarrow> form \<Rightarrow> effect list" where
  "submitActivity h formData =
     (let activityData =
            \<lparr>activity_type = formData_get formData ''activity_type'',
             session_user = formData_get formData ''session_user'',
             target = js_or (formData_get formData ''target'') JNull,
             delay_seconds = js_or (parseInt h (formData_get formData ''delay_seconds'')) (JNum 0),
             metadata_count = js_or (parseInt h (formData_get formData ''count'')) (JNum 1)\<rparr>
      in if \<not> truthy (activity_type activityData) \<or> \<not> truthy (session_user activityData)
         then [Notification msg_choose_type_and_user (str ''warning'')]
         else [Fetch ''/srdr-proadmin/api/automation/schedule-activity'' ''POST''
                 (activity_json activityData)])"

subsection \<open>showConfigModal, saveConfig\<close>





subsection \<open>retryActivity, cancelActivity\<close>




subsection \<open>startAutoRefresh, stopAutoRefresh\<close>

text \<open>
  The browser's interval timers, as far as this script creates them: the handles that
  are live, and the last handle given out. \<open>setInterval\<close> returns a fresh handle,
  an integer above zero; \<open>clearInterval\<close> ends the timer of a handle.
  \<open>refreshInterval\<close> is the script's variable, \<open>None\<close> for \<open>null\<close>.
\<close>

record timers =
  refreshInterval :: "nat option"
  live :: "nat list"
  last_handle :: nat

definition setInterval :: "timers \<Rightarrow> nat \<times> timers" where
  "setInterval s =
     (let t = Suc (last_handle s) in (t, s\<lparr>live := t # live s, last_handle := t\<rparr>))"

definition clearInterval :: "nat \<Rightarrow> timers \<Rightarrow> timers" where
  "clearInterval t s = s\<lparr>live := removeAll t (live s)\<rparr>"

definition stopAutoRefresh :: "timers \<Rightarrow> timers" where
  "stopAutoRefresh s =
     (case refreshInterval s of
        None \<Rightarrow> s
      | Some t \<Rightarrow> if t \<noteq> 0 then (clearInterval t s)\<lparr>refreshInterval := None\<rparr> else s)"

definition startAutoRefresh :: "timers \<Rightarrow> timers" where
  "startAutoRefresh s =
     (let s1 = stopAutoRefresh s;
          (t, s2) = setInterval s1
      in s2\<lparr>refreshInterval := Some t\<rparr>)"

text \<open>
  The script calls \<open>startAutoRefresh\<close> when the page has loaded and
  \<open>stopAutoRefresh\<close> before it unloads; a run is any sequence of such calls from
  the state the script starts in.
\<close>

datatype call = StartAutoRefresh | StopAutoRefresh

fun step :: "call \<Rightarrow> timers \<Rightarrow> timers" where
  "step StartAutoRefresh s = startAutoRefresh s"
| "step StopAutoRefresh s = stopAutoRefresh s"

definition run :: "call list \<Rightarrow> timers \<Rightarrow> timers" where
  "run calls s = fold step calls s"

definition script_loaded :: "nat \<Rightarrow> timers" where
  "script_loaded n = \<lparr>refreshInterval = None, live = [], last_handle = n\<rparr>"

text \<open>
  What holds between calls: the live timers are the one \<open>refreshInterval\<close> names, if
  it names one.
\<close>

definition one_timer :: "timers \<Rightarrow> bool" where
  "one_timer s =
     (case refreshInterval s of None \<Rightarrow> live s = [] | Some t \<Rightarrow> t \<noteq> 0 \<and> live s = [t])"

section \<open>The activity pages (activity.js)\<close>

subsection \<open>updateStatsDisplay\<close>

text \<open>
  The elements are found by their \<open>data-stat\<close> attribute here; each text is set where
  the element exists, as \<open>updateElementText\<close> does it.
\<close>

definition updateStatsDisplay :: "host \<Rightarrow> jsobj \<Rightarrow> page \<Rightarrow> page" where
  "updateStatsDisplay h stats pg =
     (let pg1 = updateElementText h ''likes_today'' (property stats ''likes_today'') pg;
          pg2 = updateElementText h ''follows_today'' (property stats ''follows_today'') pg1
      in updateElementText h ''success_rate''
           (JStr (to_string h (property stats ''success_rate'') @ str ''%'')) pg2)"

subsection \<open>validateUsername\<close>







section \<open>Sample data\<close>

text \<open>
  A browser as far as the examples below need one: on the decimal integers they use,
  \<open>parseFloat\<close> and \<open>ToNumber\<close> read what \<open>parseInt\<close> reads.
\<close>

definition sample_host :: host where
  "sample_host =
     \<lparr>number_to_string = (\<lambda>r. str ''?''),
      host_to_string = (\<lambda>n. str ''function '' @ n @ str ''() { [native code] }''),
      string_to_number = parseInt_string,
      parseFloat = parseInt_string,
      date_to_locale_string = (\<lambda>v. str ''?'')\<rparr>"







definition activity_form :: form where
  "activity_form =
     map_of [(str ''activity_type'', str ''like''), (str ''session_user'', str ''ayse''),
             (str ''target'', []), (str ''delay_seconds'', [])]"



definition sessions_none_active :: automationData where
  "sessions_none_active =
     \<lparr>status = None,
      sessions = [obj [(''user'', JStr (str ''ayse'')), (''status'', JStr (str ''blocked''))],
                  obj [(''user'', JStr (str ''mehmet''))]],
      activities = []\<rparr>"

definition sessions_mixed :: automationData where
  "sessions_mixed =
     \<lparr>status = None,
      sessions = [obj [(''user'', JStr (str ''ayse'')), (''status'', JStr (str ''blocked'')), (''success_rate'', JNum 40)],
                  obj [(''user'', JStr (str ''mehmet'')), (''status'', JStr (str ''active'')), (''success_rate'', JNum 90)],
                  obj [(''user'', JStr (str ''zeynep'')), (''status'', JStr (str ''invalid''))]],
      activities = []\<rparr>"


section \<open>Basic facts\<close>

lemma code_unit_of_char_inject:
  "(of_nat (of_char x) :: code_unit) = of_nat (of_char y) \<longleftrightarrow> x = y"
proof
  assume eq: "(of_nat (of_char x) :: code_unit) = of_nat (of_char y)"
  have small: "(of_char c :: nat) < 2 ^ 16" for c
  proof -
    have "(of_char c :: nat) mod 256 < 256"
      by (rule mod_less_divisor) simp
    then have "(of_char c :: nat) < 256"
      by (simp only: of_char_mod_256)
    moreover have "(256 :: nat) \<le> 2 ^ 16" by simp
    ultimately show ?thesis by (rule less_le_trans)
  qed
  have "take_bit 16 (of_char x :: nat) = take_bit 16 (of_char y :: nat)"
    using eq by (simp add: word_of_nat_eq_iff)
  then have "(of_char x :: nat) = of_char y"
    using small [of x] small [of y] by (simp add: take_bit_nat_eq_self)
  then show "x = y" by simp
qed simp

lemma str_inject [simp]: "str a = str b \<longleftrightarrow> a = b"
proof -
  have "inj (\<lambda>c. of_nat (of_char c) :: code_unit)"
    by (rule injI) (simp add: code_unit_of_char_inject)
  then show ?thesis
    unfolding str_def by (simp add: inj_map_eq_map)
qed

lemma str_eq_Nil [simp]: "str s = [] \<longleftrightarrow> s = []"
  by (simp add: str_def)

lemma strict_eq_JStr [simp]: "strict_eq v (JStr s) \<longleftrightarrow> v = JStr s"
  by (cases v) simp_all

lemma is_active_iff: "is_active s \<longleftrightarrow> property s ''status'' = JStr (str ''active'')"
  by (simp add: is_active_def)

section \<open>No active session, nothing scheduled\<close>

text \<open>
  C1. Whatever the sessions are, when none of them has the status \<open>'active'\<close>,
  \<open>scheduleRandomActivity\<close> shows the warning that no active session was found and
  does nothing else: it sends no request.
\<close>

theorem scheduleRandomActivity_no_active:
  assumes "\<forall>s \<in> set (sessions ad). property s ''status'' \<noteq> JStr (str ''active'')"
  shows "scheduleRandomActivity rnd ad = Inr [Notification msg_no_active_session (str ''warning'')]
    \<and> sent (scheduleRandomActivity rnd ad) = []"
proof -
  have "filter is_active (sessions ad) = []"
    using assms by (simp add: filter_empty_conv is_active_iff)
  then show ?thesis
    by (simp add: scheduleRandomActivity_def sent_def requests_def)
qed

theorem scheduleRandomActivity_no_active_witness:
  "map (\<lambda>s. property s ''status'') (sessions sessions_none_active)
     = [JStr (str ''blocked''), JUndefined]
   \<and> scheduleRandomActivity (1 / 2) sessions_none_active
       = Inr [Notification msg_no_active_session (str ''warning'')]
   \<and> sent (scheduleRandomActivity (1 / 2) sessions_none_active) = []"
proof -
  have statuses: "map (\<lambda>s. property s ''status'') (sessions sessions_none_active)
      = [JStr (str ''blocked''), JUndefined]"
    by (simp add: sessions_none_active_def property_def obj_def)
  have none_active:
    "\<forall>s \<in> set (sessions sessions_none_active). property s ''status'' \<noteq> JStr (str ''active'')"
    by (simp add: sessions_none_active_def property_def obj_def)
  show ?thesis
    using statuses scheduleRandomActivity_no_active [OF none_active, of "1 / 2"]
    by (simp add: sent_def requests_def)
qed

section \<open>Only active sessions are offered\<close>

lemma random_index_in_range:
  fixes rnd :: rat
  assumes "0 \<le> rnd" "rnd < 1" "0 < n"
  shows "0 \<le> \<lfloor>rnd * of_nat n\<rfloor> \<and> \<lfloor>rnd * of_nat n\<rfloor> < int n"
proof
  have "0 \<le> rnd * of_nat n" using assms by simp
  then show "0 \<le> \<lfloor>rnd * of_nat n\<rfloor>" by simp
  have "rnd * of_nat n < of_nat n" using assms by simp
  then show "\<lfloor>rnd * of_nat n\<rfloor> < int n"
    by (simp add: floor_less_iff)
qed

lemma scheduleRandomActivity_cases:
  assumes "0 \<le> rnd" "rnd < 1"
  shows "scheduleRandomActivity rnd ad = Inr [Notification msg_no_active_session (str ''warning'')]
        \<or> (\<exists>s \<in> set (sessions ad). property s ''status'' = JStr (str ''active'')
              \<and> scheduleRandomActivity rnd ad =
                  Inr [Fetch ''/srdr-proadmin/api/automation/schedule-random'' ''POST''
                         (JObject [(''session_user'', JV (property s ''user''))])])"
proof (cases "filter is_active (sessions ad) = []")
  case True
  then show ?thesis by (simp add: scheduleRandomActivity_def)
next
  case False
  let ?av = "filter is_active (sessions ad)"
  let ?i = "\<lfloor>rnd * of_nat (length ?av)\<rfloor>"
  from False have pos: "0 < length ?av" by simp
  have range: "0 \<le> ?i \<and> ?i < int (length ?av)"
    using assms pos by (rule random_index_in_range)
  then have "nat ?i < length ?av" by linarith
  then have "?av ! nat ?i \<in> set ?av" by (rule nth_mem)
  then have "?av ! nat ?i \<in> set (sessions ad)" and "is_active (?av ! nat ?i)"
    by simp_all
  moreover have "scheduleRandomActivity rnd ad =
      Inr [Fetch ''/srdr-proadmin/api/automation/schedule-random'' ''POST''
             (JObject [(''session_user'', JV (property (?av ! nat ?i) ''user''))])]"
    using False range by (simp add: scheduleRandomActivity_def Let_def)
  ultimately show ?thesis
    by (auto simp: is_active_iff)
qed

lemma scheduleRandomActivity_sent:
  assumes "e \<in> set (sent (scheduleRandomActivity rnd ad))"
  shows "\<exists>s \<in> set (sessions ad). property s ''status'' = JStr (str ''active'')
      \<and> e = Fetch ''/srdr-proadmin/api/automation/schedule-random'' ''POST''
               (JObject [(''session_user'', JV (property s ''user''))])"
proof -
  let ?av = "filter is_active (sessions ad)"
  let ?i = "\<lfloor>rnd * of_nat (length ?av)\<rfloor>"
  from assms have in_range: "?av \<noteq> []" "0 \<le> ?i" "?i < int (length ?av)"
    and e: "e = Fetch ''/srdr-proadmin/api/automation/schedule-random'' ''POST''
               (JObject [(''session_user'', JV (property (?av ! nat ?i) ''user''))])"
    by (auto simp: scheduleRandomActivity_def sent_def requests_def Let_def split: if_splits)
  from in_range have "nat ?i < length ?av" by linarith
  then have "?av ! nat ?i \<in> set ?av" by (rule nth_mem)
  then have "?av ! nat ?i \<in> set (sessions ad)" and "is_active (?av ! nat ?i)"
    by simp_all
  with e show ?thesis
    by (auto simp: is_active_iff)
qed

text \<open>
  C2. Each session dropdown that \<open>updateSessionSelects\<close> fills holds, after the
  placeholder, one option for each session whose status is \<open>'active'\<close>, in the order
  of the list, and no other. Every request \<open>scheduleRandomActivity\<close> sends names the
  user of a session whose status is \<open>'active'\<close>; with \<open>Math.random()\<close> in its
  range \<open>[0, 1)\<close> it either reports that there is none or sends exactly that request.
\<close>

theorem only_active_sessions_offered:
  "(\<forall>select \<in> set (updateSessionSelects h ad selects).
      select = placeholder_option # map (session_option h)
        (filter (\<lambda>s. property s ''status'' = JStr (str ''active'')) (sessions ad)))
   \<and> length (updateSessionSelects h ad selects) = length selects
   \<and> (\<forall>e \<in> set (sent (scheduleRandomActivity rnd ad)).
         \<exists>s \<in> set (sessions ad). property s ''status'' = JStr (str ''active'')
           \<and> e = Fetch ''/srdr-proadmin/api/automation/schedule-random'' ''POST''
                    (JObject [(''session_user'', JV (property s ''user''))]))
   \<and> (0 \<le> rnd \<and> rnd < 1 \<longrightarrow>
         scheduleRandomActivity rnd ad = Inr [Notification msg_no_active_session (str ''warning'')]
         \<or> (\<exists>s \<in> set (sessions ad). property s ''status'' = JStr (str ''active'')
               \<and> scheduleRandomActivity rnd ad =
                   Inr [Fetch ''/srdr-proadmin/api/automation/schedule-random'' ''POST''
                          (JObject [(''session_user'', JV (property s ''user''))])]))"
proof -
  have same: "filter (\<lambda>s. property s ''status'' = JStr (str ''active'')) (sessions ad)
      = filter is_active (sessions ad)"
    by (rule filter_cong) (simp_all add: is_active_iff)
  have selects: "\<forall>select \<in> set (updateSessionSelects h ad selects).
      select = placeholder_option # map (session_option h) (filter is_active (sessions ad))"
    by (auto simp: updateSessionSelects_def)
  have len: "length (updateSessionSelects h ad selects) = length selects"
    by (simp add: updateSessionSelects_def)
  show ?thesis
    unfolding same
    using selects len scheduleRandomActivity_sent [of _ rnd ad] scheduleRandomActivity_cases [of rnd ad]
    by blast
qed

theorem only_active_sessions_offered_witness:
  "updateSessionSelects sample_host sessions_mixed [[]]
       = [[placeholder_option,
           \<lparr>option_value = str ''mehmet'',
            option_text = str ''mehmet (90% ba'' @ [0x15F] @ str ''ar'' @ [0x131] @ str '')''\<rparr>]]
   \<and> scheduleRandomActivity (1 / 2) sessions_mixed =
        Inr [Fetch ''/srdr-proadmin/api/automation/schedule-random'' ''POST''
               (JObject [(''session_user'', JV (JStr (str ''mehmet'')))])]"
  using only_active_sessions_offered [of sample_host sessions_mixed "[[]]" "1 / 2"]
  by (simp add: sessions_mixed_def property_def obj_def updateSessionSelects_def session_option_def
      is_active_def scheduleRandomActivity_def int_to_string_def digits.simps str_def)

section \<open>The buttons of an activity row\<close>











section \<open>The success rate card\<close>

lemma updateElementText_other:
  "elementId \<noteq> k \<Longrightarrow> updateElementText h elementId text pg k = pg k"
  by (simp add: updateElementText_def split: option.splits)

lemma updateElementText_same:
  "pg k = Some old \<Longrightarrow> updateElementText h k text pg k = Some (text_content h text)"
  by (simp add: updateElementText_def)




text \<open>
  The statistics of the activity pages have no such default: \<open>updateStatsDisplay\<close>
  shows a missing rate as \<open>undefined%\<close>.
\<close>

lemma updateStatsDisplay_absent_rate:
  assumes "stats (str ''success_rate'') = None" and "pg ''success_rate'' = Some old"
  shows "updateStatsDisplay h stats pg ''success_rate'' = Some (str ''undefined%'')"
proof -
  have "updateStatsDisplay h stats pg ''success_rate'' =
      Some (text_content h (JStr (to_string h (property stats ''success_rate'') @ str ''%'')))"
    unfolding updateStatsDisplay_def Let_def
    by (rule updateElementText_same) (simp add: updateElementText_other assms(2))
  then show ?thesis
    using assms(1) by (simp add: text_content_def property_def str_def)
qed

section \<open>Status badges\<close>

text \<open>
  Each of the five statuses has its badge, the five are different, and none is the
  badge of an unknown status.
\<close>

lemma getStatusBadge_enum:
  "getStatusBadge h (JStr (str ''pending'')) = JStr (span_badge ''bg-warning'' (str ''Bekleyen''))"
  "getStatusBadge h (JStr (str ''running'')) =
     JStr (span_badge ''bg-info'' ([0xC7] @ str ''al'' @ [0x131, 0x15F] @ str ''an''))"
  "getStatusBadge h (JStr (str ''completed'')) = JStr (span_badge ''bg-success'' (str ''Tamamlanan''))"
  "getStatusBadge h (JStr (str ''failed'')) =
     JStr (span_badge ''bg-danger''
       (str ''Ba'' @ [0x15F] @ str ''ar'' @ [0x131] @ str ''s'' @ [0x131] @ str ''z''))"
  "getStatusBadge h (JStr (str ''cancelled'')) = JStr (span_badge ''bg-secondary'' ([0x130] @ str ''ptal''))"
  by (simp_all add: getStatusBadge_def literal_get_def badges_def js_or_def span_badge_def)

lemma getStatusBadge_enum_distinct:
  "distinct (map (getStatusBadge h \<circ> JStr \<circ> str)
     [''pending'', ''running'', ''completed'', ''failed'', ''cancelled''])"
  "JStr unknown_badge \<notin> set (map (getStatusBadge h \<circ> JStr \<circ> str)
     [''pending'', ''running'', ''completed'', ''failed'', ''cancelled''])"
  by (simp_all only: list.map comp_def getStatusBadge_enum)
    (simp_all add: span_badge_def unknown_badge_def str_def)

text \<open>
  A status whose name is neither one of the five nor a property of
  \<open>Object.prototype\<close> gets the badge of an unknown status, and no status gets
  \<open>undefined\<close>.
\<close>

lemma getStatusBadge_fallback:
  assumes "to_string h st \<notin> set (map (str \<circ> fst) badges)"
    and "to_string h st \<notin> set (map str object_prototype_names)"
  shows "getStatusBadge h st = JStr unknown_badge"
proof -
  have "map_of (map (\<lambda>(n, v). (str n, v)) badges) (to_string h st) = None"
    using assms(1) by (simp add: map_of_eq_None_iff image_image case_prod_unfold)
  then show ?thesis
    using assms(2) by (simp add: getStatusBadge_def literal_get_def js_or_def)
qed

lemma getStatusBadge_defined: "getStatusBadge h st \<noteq> JUndefined"
  by (auto simp: getStatusBadge_def js_or_def)

text \<open>
  C8. \<open>getStatusBadge\<close> is meant to give the badge of an unknown status for every
  input that is not one of the five statuses. For the status \<open>'constructor'\<close> the
  lookup in the literal finds the function inherited from \<open>Object.prototype\<close>, which
  is truthy, and \<open>getStatusBadge\<close> returns that function, not a badge.
\<close>

theorem getStatusBadge_inherited_name:
  "getStatusBadge h (JStr (str ''constructor'')) = JHost (str ''constructor'')
   \<and> getStatusBadge h (JStr (str ''constructor'')) \<noteq> JStr unknown_badge"
  by (simp add: getStatusBadge_def literal_get_def badges_def object_prototype_names_def js_or_def)

section \<open>Submitting an activity\<close>

lemma parseInt_string_cases: "parseInt_string s = JNaN \<or> (\<exists>r. parseInt_string s = JNum r)"
  by (simp add: parseInt_string_def Let_def split: option.splits)

lemma parseInt_null: "parseInt h JNull = JNaN"
  by (simp add: parseInt_def parseInt_string_def is_white_space_def digit_value_def str_def)

lemma parseInt_empty: "parseInt h (JStr []) = JNaN"
  by (simp add: parseInt_def parseInt_string_def Let_def str_def)

lemma formData_get_empty:
  "field_empty formData name \<longleftrightarrow> \<not> truthy (formData_get formData name)"
  by (simp add: field_empty_def formData_get_def split: option.splits)

lemma formData_get_cases:
  "field_empty formData name \<Longrightarrow> formData_get formData name = JNull \<or> formData_get formData name = JStr []"
  by (auto simp: field_empty_def formData_get_def split: option.splits)

lemma parseInt_field_empty:
  "field_empty formData name \<Longrightarrow> parseInt h (formData_get formData name) = JNaN"
  using formData_get_cases [of formData name] by (auto simp: parseInt_null parseInt_empty)

lemma activity_form_fields:
  "\<not> field_empty activity_form ''activity_type''" "\<not> field_empty activity_form ''session_user''"
  "field_empty activity_form ''target''" "field_empty activity_form ''delay_seconds''"
  "field_empty activity_form ''count''"
  by (simp_all add: activity_form_def field_empty_def)

text \<open>
  C7. When the form has no activity type or no user (the field is missing or empty),
  \<open>submitActivity\<close> shows a warning and sends no request. When it has both, it sends
  one request to the schedule endpoint that carries this type and this user; the
  target is \<open>null\<close> when the form gives none, the delay is the integer
  \<open>parseInt\<close> reads and 0 when the form gives none or no integer, and the count is
  the integer \<open>parseInt\<close> reads and 1 when the form gives none, no integer or 0.
\<close>

theorem submitActivity_validates:
  "(field_empty formData ''activity_type'' \<or> field_empty formData ''session_user'' \<longrightarrow>
      submitActivity h formData = [Notification msg_choose_type_and_user (str ''warning'')]
      \<and> requests (submitActivity h formData) = [])
   \<and> (\<not> field_empty formData ''activity_type'' \<and> \<not> field_empty formData ''session_user'' \<longrightarrow>
        (\<exists>ty user tg delay count.
           submitActivity h formData =
             [Fetch ''/srdr-proadmin/api/automation/schedule-activity'' ''POST''
                (activity_json \<lparr>activity_type = JStr ty, session_user = JStr user, target = tg,
                   delay_seconds = JNum delay, metadata_count = JNum count\<rparr>)]
           \<and> formData (str ''activity_type'') = Some ty
           \<and> formData (str ''session_user'') = Some user
           \<and> tg = (case formData (str ''target'') of
                     None \<Rightarrow> JNull
                   | Some t \<Rightarrow> if t = [] then JNull else JStr t)
           \<and> delay = (case parseInt h (formData_get formData ''delay_seconds'') of
                        JNum r \<Rightarrow> r
                      | _ \<Rightarrow> 0)
           \<and> count = (case parseInt h (formData_get formData ''count'') of
                        JNum r \<Rightarrow> if r = 0 then 1 else r
                      | _ \<Rightarrow> 1)
           \<and> (field_empty formData ''delay_seconds'' \<longrightarrow> delay = 0)
           \<and> (field_empty formData ''count'' \<longrightarrow> count = 1)))"
proof (intro conjI impI)
  assume "field_empty formData ''activity_type'' \<or> field_empty formData ''session_user''"
  then have "\<not> truthy (formData_get formData ''activity_type'')
      \<or> \<not> truthy (formData_get formData ''session_user'')"
    by (simp add: formData_get_empty)
  then show "submitActivity h formData = [Notification msg_choose_type_and_user (str ''warning'')]"
    by (auto simp: submitActivity_def Let_def)
  then show "requests (submitActivity h formData) = []"
    by (simp add: requests_def)
next
  assume present: "\<not> field_empty formData ''activity_type'' \<and> \<not> field_empty formData ''session_user''"
  then obtain ty user where ty: "formData (str ''activity_type'') = Some ty" "ty \<noteq> []"
    and user: "formData (str ''session_user'') = Some user" "user \<noteq> []"
    by (auto simp: field_empty_def split: option.splits)
  let ?d = "parseInt h (formData_get formData ''delay_seconds'')"
  let ?c = "parseInt h (formData_get formData ''count'')"
  let ?delay = "case ?d of JNum r \<Rightarrow> r | _ \<Rightarrow> 0"
  let ?count = "case ?c of JNum r \<Rightarrow> if r = 0 then 1 else r | _ \<Rightarrow> 1"
  let ?tg = "js_or (formData_get formData ''target'') JNull"
  have delay: "js_or ?d (JNum 0) = JNum ?delay"
    using parseInt_string_cases [of "to_string h (formData_get formData ''delay_seconds'')"]
    by (auto simp: parseInt_def js_or_def)
  have count: "js_or ?c (JNum 1) = JNum ?count"
    using parseInt_string_cases [of "to_string h (formData_get formData ''count'')"]
    by (auto simp: parseInt_def js_or_def)
  have sends: "submitActivity h formData =
             [Fetch ''/srdr-proadmin/api/automation/schedule-activity'' ''POST''
                (activity_json \<lparr>activity_type = JStr ty, session_user = JStr user, target = ?tg,
                   delay_seconds = JNum ?delay, metadata_count = JNum ?count\<rparr>)]"
  proof -
    have "formData_get formData ''activity_type'' = JStr ty"
      and "formData_get formData ''session_user'' = JStr user"
      using ty user by (simp_all add: formData_get_def)
    then show ?thesis
      using ty(2) user(2) by (simp add: submitActivity_def Let_def delay count)
  qed
  have tg: "?tg = (case formData (str ''target'') of
                     None \<Rightarrow> JNull
                   | Some t \<Rightarrow> if t = [] then JNull else JStr t)"
    by (simp add: js_or_def formData_get_def split: option.splits)
  have d0: "field_empty formData ''delay_seconds'' \<longrightarrow> ?delay = 0"
    by (simp add: parseInt_field_empty)
  have c1: "field_empty formData ''count'' \<longrightarrow> ?count = 1"
    by (simp add: parseInt_field_empty)
  show "\<exists>ty user tg delay count.
           submitActivity h formData =
             [Fetch ''/srdr-proadmin/api/automation/schedule-activity'' ''POST''
                (activity_json \<lparr>activity_type = JStr ty, session_user = JStr user, target = tg,
                   delay_seconds = JNum delay, metadata_count = JNum count\<rparr>)]
           \<and> formData (str ''activity_type'') = Some ty
           \<and> formData (str ''session_user'') = Some user
           \<and> tg = (case formData (str ''target'') of
                     None \<Rightarrow> JNull
                   | Some t \<Rightarrow> if t = [] then JNull else JStr t)
           \<and> delay = (case parseInt h (formData_get formData ''delay_seconds'') of
                        JNum r \<Rightarrow> r
                      | _ \<Rightarrow> 0)
           \<and> count = (case parseInt h (formData_get formData ''count'') of
                        JNum r \<Rightarrow> if r = 0 then 1 else r
                      | _ \<Rightarrow> 1)
           \<and> (field_empty formData ''delay_seconds'' \<longrightarrow> delay = 0)
           \<and> (field_empty formData ''count'' \<longrightarrow> count = 1)"
    using sends ty(1) user(1) tg d0 c1 by blast
qed

theorem submitActivity_validates_witness:
  "submitActivity sample_host activity_form =
     [Fetch ''/srdr-proadmin/api/automation/schedule-activity'' ''POST''
        (activity_json \<lparr>activity_type = JStr (str ''like''), session_user = JStr (str ''ayse''),
           target = JNull, delay_seconds = JNum 0, metadata_count = JNum 1\<rparr>)]
   \<and> submitActivity sample_host (activity_form(str ''session_user'' \<mapsto> []))
       = [Notification msg_choose_type_and_user (str ''warning'')]"
proof -
  have empty_user: "field_empty (activity_form(str ''session_user'' \<mapsto> [])) ''session_user''"
    by (simp add: field_empty_def)
  have ty: "activity_form (str ''activity_type'') = Some (str ''like'')"
    and user: "activity_form (str ''session_user'') = Some (str ''ayse'')"
    and tg: "activity_form (str ''target'') = Some []"
    by (simp_all add: activity_form_def)
  show ?thesis
    using submitActivity_validates [of activity_form sample_host]
      submitActivity_validates [of "activity_form(str ''session_user'' \<mapsto> [])" sample_host]
      activity_form_fields empty_user ty user tg
    by auto
qed

section \<open>Probabilities in the configuration form\<close>





section \<open>The refresh timer\<close>

lemma one_timer_stop: "one_timer s \<Longrightarrow> one_timer (stopAutoRefresh s)"
  by (auto simp: one_timer_def stopAutoRefresh_def clearInterval_def split: option.splits)

lemma stop_clears:
  "one_timer s \<Longrightarrow> refreshInterval (stopAutoRefresh s) = None \<and> live (stopAutoRefresh s) = []"
  by (auto simp: one_timer_def stopAutoRefresh_def clearInterval_def split: option.splits)

lemma one_timer_start: "one_timer s \<Longrightarrow> one_timer (startAutoRefresh s)"
  using stop_clears [of s]
  by (simp add: one_timer_def startAutoRefresh_def setInterval_def Let_def)

lemma one_timer_step: "one_timer s \<Longrightarrow> one_timer (step c s)"
  by (cases c) (simp_all add: one_timer_stop one_timer_start)

lemma one_timer_run: "one_timer s \<Longrightarrow> one_timer (run calls s)"
  unfolding run_def
  by (induction calls arbitrary: s) (simp_all add: one_timer_step)

lemma one_timer_script_loaded: "one_timer (script_loaded n)"
  by (simp add: one_timer_def script_loaded_def)

text \<open>
  C9. After any sequence of calls of \<open>startAutoRefresh\<close> and \<open>stopAutoRefresh\<close>, from
  the state in which the script is loaded, at most one refresh timer is live: the one
  \<open>refreshInterval\<close> holds, or none when it is \<open>null\<close>; and \<open>stopAutoRefresh\<close>
  leaves none.
\<close>

theorem at_most_one_refresh_timer:
  "length (live (run calls (script_loaded n))) \<le> 1
   \<and> live (run calls (script_loaded n)) =
       (case refreshInterval (run calls (script_loaded n)) of None \<Rightarrow> [] | Some t \<Rightarrow> [t])
   \<and> live (stopAutoRefresh (run calls (script_loaded n))) = []"
proof -
  have inv: "one_timer (run calls (script_loaded n))"
    using one_timer_script_loaded by (rule one_timer_run)
  then show ?thesis
    using stop_clears [OF inv] by (auto simp: one_timer_def split: option.splits)
qed

theorem at_most_one_refresh_timer_witness:
  "run [StartAutoRefresh, StartAutoRefresh, StopAutoRefresh, StartAutoRefresh] (script_loaded 0)
     = \<lparr>refreshInterval = Some 3, live = [3], last_handle = 3\<rparr>
   \<and> length (live (run [StartAutoRefresh, StartAutoRefresh, StopAutoRefresh, StartAutoRefresh]
        (script_loaded 0))) \<le> 1"
  using at_most_one_refresh_timer
    [of "[StartAutoRefresh, StartAutoRefresh, StopAutoRefresh, StartAutoRefresh]" 0]
  by (simp add: run_def script_loaded_def startAutoRefresh_def stopAutoRefresh_def
      setInterval_def clearInterval_def)

section \<open>User names\<close>











end
